theory Spec2Isabelle
  imports Complex_Main
begin

section \<open>Floating-point numbers of the two scripts\<close>

text \<open>
  Both scripts handle IEEE 754 binary numbers: \<open>create_level_bounds.py\<close> builds its
  arrays with \<open>dtype='float32'\<close> and stores them in \<open>'f8'\<close> variables,
  \<open>levels_check.py\<close> computes on the \<open>float64\<close> values it reads back.
  A number is modelled by its exact rational value, or it is the negative zero, an
  infinity or NaN. Every arithmetic result is rounded to the nearest representable
  number, ties to the even significand.
\<close>

datatype fval = Num rat | NegZero | Inf bool | NaN

text \<open>\<open>Num 0\<close> is the positive zero, \<open>Inf True\<close> the negative infinity.\<close>

fun bitlen :: "nat \<Rightarrow> nat" where
  "bitlen n = (if n = 0 then 0 else Suc (bitlen (n div 2)))"

declare bitlen.simps [simp del]

definition pow2 :: "int \<Rightarrow> rat" where
  "pow2 e = (if 0 \<le> e then 2 ^ nat e else 1 / 2 ^ nat (- e))"

definition round_half_even :: "rat \<Rightarrow> int" where
  "round_half_even q =
     (let f = \<lfloor>q\<rfloor>; r = q - of_int f
      in if r < 1 / 2 then f
         else if 1 / 2 < r then f + 1
         else if even f then f else f + 1)"

text \<open>For \<open>q > 0\<close>, \<open>ilog2 q\<close> is the exponent \<open>e\<close> with \<open>2^e \<le> q < 2^(e+1)\<close>.\<close>

definition ilog2 :: "rat \<Rightarrow> int" where
  "ilog2 q =
     (if 1 \<le> q then int (bitlen (nat \<lfloor>q\<rfloor>)) - 1
      else - int (bitlen (nat (\<lceil>1 / q\<rceil> - 1))))"

text \<open>
  Rounding to a binary format with \<open>p\<close> significand bits and largest exponent
  \<open>emax\<close> (smallest normal exponent \<open>1 - emax\<close>, subnormal numbers below it): the unit
  in the last place of \<open>q\<close> is \<open>2^e\<close>, a result of magnitude \<open>2^(emax+1)\<close> or more
  overflows to an infinity, and a negative number that rounds to zero gives the negative
  zero.
\<close>

definition round_to :: "nat \<Rightarrow> int \<Rightarrow> rat \<Rightarrow> fval" where
  "round_to p emax q =
     (if q = 0 then Num 0
      else
        let e = max (ilog2 \<bar>q\<bar>) (1 - emax) - (int p - 1);
            r = of_int (round_half_even (q / pow2 e)) * pow2 e
        in if pow2 (emax + 1) \<le> \<bar>r\<bar> then Inf (q < 0)
           else if r = 0 \<and> q < 0 then NegZero
           else Num r)"

datatype dtype = F4 | F8

fun round_dtype :: "dtype \<Rightarrow> rat \<Rightarrow> fval" where
  "round_dtype F4 q = round_to 24 127 q"
| "round_dtype F8 q = round_to 53 1023 q"

text \<open>Conversion of a stored number to another precision (\<open>astype\<close>).\<close>

fun cast :: "dtype \<Rightarrow> fval \<Rightarrow> fval" where
  "cast t (Num q) = round_dtype t q"
| "cast t NegZero = NegZero"
| "cast t (Inf s) = Inf s"
| "cast t NaN = NaN"

fun fneg :: "fval \<Rightarrow> fval" where
  "fneg (Num q) = (if q = 0 then NegZero else Num (- q))"
| "fneg NegZero = Num 0"
| "fneg (Inf s) = Inf (\<not> s)"
| "fneg NaN = NaN"

fun fabs :: "fval \<Rightarrow> fval" where
  "fabs (Num q) = Num \<bar>q\<bar>"
| "fabs NegZero = Num 0"
| "fabs (Inf s) = Inf False"
| "fabs NaN = NaN"

text \<open>
  Addition, subtraction and division by an element count in the precision \<open>t\<close>.
  A sum that is exactly zero is the positive zero, unless both summands are the negative
  zero. A count of zero gives NaN for a zero dividend and an infinity for any other.
\<close>

fun fadd :: "dtype \<Rightarrow> fval \<Rightarrow> fval \<Rightarrow> fval" where
  "fadd t (Num a) (Num b) = round_dtype t (a + b)"
| "fadd t NaN y = NaN"
| "fadd t x NaN = NaN"
| "fadd t (Inf s) (Inf u) = (if s = u then Inf s else NaN)"
| "fadd t (Inf s) y = Inf s"
| "fadd t x (Inf u) = Inf u"
| "fadd t NegZero NegZero = NegZero"
| "fadd t NegZero (Num b) = round_dtype t b"
| "fadd t (Num a) NegZero = round_dtype t a"

definition fsub :: "dtype \<Rightarrow> fval \<Rightarrow> fval \<Rightarrow> fval" where
  "fsub t x y = fadd t x (fneg y)"

fun fdiv_count :: "dtype \<Rightarrow> fval \<Rightarrow> nat \<Rightarrow> fval" where
  "fdiv_count t (Num a) n =
     (if n = 0 then (if a = 0 then NaN else Inf (a < 0))
      else round_dtype t (a / of_nat n))"
| "fdiv_count t NegZero n = (if n = 0 then NaN else NegZero)"
| "fdiv_count t (Inf s) n = Inf s"
| "fdiv_count t NaN n = NaN"

text \<open>The result precision of an operation on two numbers (NumPy's type promotion).\<close>

fun promote :: "dtype \<Rightarrow> dtype \<Rightarrow> dtype" where
  "promote F4 F4 = F4"
| "promote t u = F8"

section \<open>Arrays\<close>

text \<open>
  A NumPy array: element type, shape, and the elements in row-major order.
\<close>

record ndarray =
  nd_dtype :: dtype
  nd_shape :: "nat list"
  nd_data :: "fval list"

datatype error =
    PermissionError
  | FileNotFoundError
  | KeyError string
  | IndexError
  | TypeError
  | ValueError
  | RuntimeError

text \<open>
  \<open>np.array(xs, dtype='float32')\<close> on a list of Python integers, and on a list of
  lists of them: NumPy converts each integer to a \<open>float64\<close> and that to \<open>float32\<close>.
  Rows of unequal length make NumPy raise \<open>ValueError\<close>. (An integer beyond the range
  of \<open>float64\<close> makes the conversion raise; the model gives an infinity there.)
\<close>

definition float32_of_int :: "int \<Rightarrow> fval" where
  "float32_of_int x = cast F4 (round_dtype F8 (of_int x))"

definition np_array1 :: "int list \<Rightarrow> ndarray" where
  "np_array1 xs =
     \<lparr>nd_dtype = F4, nd_shape = [length xs], nd_data = map float32_of_int xs\<rparr>"

definition np_array2 :: "int list list \<Rightarrow> error + ndarray" where
  "np_array2 rows =
     (case rows of
        [] \<Rightarrow> Inr \<lparr>nd_dtype = F4, nd_shape = [0], nd_data = []\<rparr>
      | r # rs \<Rightarrow>
          if list_all (\<lambda>r'. length r' = length r) rs
          then Inr \<lparr>nd_dtype = F4, nd_shape = [length rows, length r],
                    nd_data = map float32_of_int (concat rows)\<rparr>
          else Inl ValueError)"

section \<open>The configured constants of \<open>create_level_bounds.py\<close>\<close>

definition plev_list :: "int list" where
  "plev_list = [100000, 92500, 85000, 70000, 60000, 50000, 40000, 30000]"

definition plev_bounds_list :: "int list list" where
  "plev_bounds_list =
     [[101325, 96250],
      [96250, 88750],
      [88750, 72500],
      [72500, 65000],
      [65000, 55000],
      [55000, 45000],
      [45000, 35000],
      [35000, 25000]]"

definition plev_vals :: ndarray where
  "plev_vals = np_array1 plev_list"

definition plev_bounds_vals :: "error + ndarray" where
  "plev_bounds_vals = np_array2 plev_bounds_list"

section \<open>NetCDF files and the file system\<close>

text \<open>
  The \<open>netCDF4\<close> library is not part of the repository; the part of it that the two
  scripts call is modelled here. A file holds named dimensions, variables over these
  dimensions with their data in row-major order, and global attributes. Attributes are
  texts, as all those are that the generator writes; numeric attributes, among them the
  ones by which the library rescales or masks the data it reads, are outside the model.
\<close>

record ncvar =
  var_dtype :: dtype
  var_dims :: "string list"
  var_attrs :: "(string \<times> string) list"
  var_data :: "fval list"

record ncfile =
  nc_dims :: "(string \<times> nat) list"
  nc_vars :: "(string \<times> ncvar) list"
  nc_attrs :: "(string \<times> string) list"

definition empty_nc :: ncfile where
  "empty_nc = \<lparr>nc_dims = [], nc_vars = [], nc_attrs = []\<rparr>"

definition dim_size :: "ncfile \<Rightarrow> string \<Rightarrow> nat" where
  "dim_size nc d = (case map_of (nc_dims nc) d of None \<Rightarrow> 0 | Some n \<Rightarrow> n)"

definition var_shape :: "ncfile \<Rightarrow> ncvar \<Rightarrow> nat list" where
  "var_shape nc v = map (dim_size nc) (var_dims v)"

text \<open>The default fill value of the library, \<open>9.969209968386869e+36\<close>.\<close>

definition fill_value :: fval where
  "fill_value = Num (15 * 2 ^ 119)"

definition set_attr :: "string \<Rightarrow> string \<Rightarrow> (string \<times> string) list \<Rightarrow> (string \<times> string) list" where
  "set_attr k v attrs = filter (\<lambda>kv. fst kv \<noteq> k) attrs @ [(k, v)]"

definition update_var :: "string \<Rightarrow> (ncvar \<Rightarrow> ncvar) \<Rightarrow> ncfile \<Rightarrow> ncfile" where
  "update_var name f nc =
     nc\<lparr>nc_vars := map (\<lambda>nv. if fst nv = name then (fst nv, f (snd nv)) else nv) (nc_vars nc)\<rparr>"

text \<open>
  \<open>nc.createDimension(name, size)\<close>. (A size of zero asks the library for an unlimited
  dimension, whose current length is zero; its later growth is not modelled.)
\<close>

definition createDimension :: "string \<Rightarrow> nat \<Rightarrow> ncfile \<Rightarrow> error + ncfile" where
  "createDimension name n nc =
     (if map_of (nc_dims nc) name \<noteq> None then Inl RuntimeError
      else Inr (nc\<lparr>nc_dims := nc_dims nc @ [(name, n)]\<rparr>))"

text \<open>\<open>nc.createVariable(name, datatype, dimensions)\<close>: the new variable is pre-filled.\<close>

definition createVariable :: "string \<Rightarrow> dtype \<Rightarrow> string list \<Rightarrow> ncfile \<Rightarrow> error + ncfile" where
  "createVariable name t dims nc =
     (if map_of (nc_vars nc) name \<noteq> None then Inl RuntimeError
      else if \<not> list_all (\<lambda>d. map_of (nc_dims nc) d \<noteq> None) dims then Inl ValueError
      else Inr (nc\<lparr>nc_vars := nc_vars nc @
             [(name, \<lparr>var_dtype = t, var_dims = dims, var_attrs = [],
                       var_data = replicate (prod_list (map (dim_size nc) dims)) fill_value\<rparr>)]\<rparr>))"

text \<open>
  \<open>var[:] = arr\<close> and \<open>var[:, :] = arr\<close>: the whole variable is assigned, the data
  converted to the variable's type. An array of another shape is refused (the
  library's broadcasting of arrays with axes of length one is not modelled).
\<close>

definition var_assign :: "string \<Rightarrow> ndarray \<Rightarrow> ncfile \<Rightarrow> error + ncfile" where
  "var_assign name arr nc =
     (case map_of (nc_vars nc) name of
        None \<Rightarrow> Inl (KeyError name)
      | Some v \<Rightarrow>
          if nd_shape arr = var_shape nc v
          then Inr (update_var name (\<lambda>v. v\<lparr>var_data := map (cast (var_dtype v)) (nd_data arr)\<rparr>) nc)
          else Inl ValueError)"

text \<open>\<open>var.key = value\<close> on a variable, and \<open>nc.key = value\<close> on the file.\<close>

definition var_setattr :: "string \<Rightarrow> string \<Rightarrow> string \<Rightarrow> ncfile \<Rightarrow> error + ncfile" where
  "var_setattr name k val nc =
     (case map_of (nc_vars nc) name of
        None \<Rightarrow> Inl (KeyError name)
      | Some v \<Rightarrow> Inr (update_var name (\<lambda>v. v\<lparr>var_attrs := set_attr k val (var_attrs v)\<rparr>) nc))"

definition nc_setattr :: "string \<Rightarrow> string \<Rightarrow> ncfile \<Rightarrow> error + ncfile" where
  "nc_setattr k val nc = Inr (nc\<lparr>nc_attrs := set_attr k val (nc_attrs nc)\<rparr>)"

text \<open>
  The world a script runs in: the files by path, which paths can be written, the paths
  of the file handles that are open, and the lines printed so far. What a create that
  fails has done to a file that was at the path is not the scripts' doing but the
  library's and the file system's: in its mode \<open>'w'\<close> the library replaces an existing
  file, and it may have removed the old file before the create fails (a read-only file in
  a directory that can be written), or have touched nothing (a directory that cannot be
  written). Which of the two happens at a path is part of the world.
\<close>

record world =
  files :: "string \<rightharpoonup> ncfile"
  writable :: "string \<Rightarrow> bool"
  failed_create_removes :: "string \<Rightarrow> bool"
  open_files :: "string list"
  stdout :: "string list"

text \<open>
  \<open>Dataset(path, 'w', ...)\<close> creates or truncates the file and opens it. At a path that
  cannot be written it raises \<open>PermissionError\<close> and opens nothing; the world is then as
  the failed create left it.
\<close>

definition Dataset_w :: "string \<Rightarrow> world \<Rightarrow> error \<times> world + world" where
  "Dataset_w path w =
     (if writable w path
      then Inr (w\<lparr>files := (files w)(path \<mapsto> empty_nc), open_files := path # open_files w\<rparr>)
      else Inl (PermissionError,
                if failed_create_removes w path then w\<lparr>files := (files w)(path := None)\<rparr>
                else w))"

text \<open>\<open>Dataset(path)\<close> opens an existing file for reading.\<close>

definition Dataset_r :: "string \<Rightarrow> world \<Rightarrow> error + ncfile \<times> world" where
  "Dataset_r path w =
     (case files w path of
        None \<Rightarrow> Inl FileNotFoundError
      | Some nc \<Rightarrow> Inr (nc, w\<lparr>open_files := path # open_files w\<rparr>))"

definition close_file :: "string \<Rightarrow> world \<Rightarrow> world" where
  "close_file path w = w\<lparr>open_files := remove1 path (open_files w)\<rparr>"

definition print :: "string \<Rightarrow> world \<Rightarrow> world" where
  "print line w = w\<lparr>stdout := stdout w @ [line]\<rparr>"

section \<open>\<open>create_level_bounds.py\<close>\<close>

text \<open>
  The statements of a \<open>with\<close> block run in order on the open file; the first one that
  raises ends the block, with the file as the statements before it left it.
\<close>

fun run_steps :: "(ncfile \<Rightarrow> error + ncfile) list \<Rightarrow> ncfile \<Rightarrow> error option \<times> ncfile" where
  "run_steps [] nc = (None, nc)"
| "run_steps (s # ss) nc =
     (case s nc of Inl e \<Rightarrow> (Some e, nc) | Inr nc' \<Rightarrow> run_steps ss nc')"

text \<open>\<open>len(a)\<close> of an array; an array without axes has no length.\<close>

definition len :: "ndarray \<Rightarrow> error + nat" where
  "len a = (case nd_shape a of [] \<Rightarrow> Inl TypeError | n # sh \<Rightarrow> Inr n)"

text \<open>
  The body of the \<open>with\<close> block (lines 67 to 85), for the two arrays \<open>plev_vals\<close> and
  \<open>plev_bounds_vals\<close> of the module.
\<close>

definition write_steps :: "ndarray \<Rightarrow> ndarray \<Rightarrow> (ncfile \<Rightarrow> error + ncfile) list" where
  "write_steps pv pbv =
     [\<lambda>nc. (case len pv of Inl e \<Rightarrow> Inl e | Inr n \<Rightarrow> createDimension ''plev'' n nc),
      createDimension ''bnds'' 2,
      createVariable ''plev'' F8 [''plev''],
      createVariable ''plev_bounds'' F8 [''plev'', ''bnds''],
      var_assign ''plev'' pv,
      var_assign ''plev_bounds'' pbv,
      var_setattr ''plev'' ''standard_name'' ''air_pressure'',
      var_setattr ''plev'' ''long_name'' ''Pressure Level'',
      var_setattr ''plev'' ''units'' ''Pa'',
      var_setattr ''plev'' ''positive'' ''down'',
      var_setattr ''plev'' ''axis'' ''Z'',
      var_setattr ''plev'' ''_CoordinateAxisType'' ''Pressure'',
      var_setattr ''plev'' ''bounds'' ''plev_bounds'',
      nc_setattr ''history'' ''Created with custom python script on YYYY-MM-DD'']"

text \<open>
  The \<open>with Dataset('level_bounds.nc', 'w', format='NETCDF3_CLASSIC') as nc\<close> statement:
  when the file cannot be opened the script ends with the error and does nothing more;
  otherwise the block runs, what it wrote is in the file, and the file is closed whether
  or not the block raised.
\<close>

definition write_level_bounds :: "ndarray \<Rightarrow> ndarray \<Rightarrow> world \<Rightarrow> error option \<times> world" where
  "write_level_bounds pv pbv w =
     (case Dataset_w ''level_bounds.nc'' w of
        Inl (e, w') \<Rightarrow> (Some e, w')
      | Inr w1 \<Rightarrow>
          (case run_steps (write_steps pv pbv) empty_nc of
             (r, nc) \<Rightarrow>
               (r, close_file ''level_bounds.nc''
                     (w1\<lparr>files := (files w1)(''level_bounds.nc'' \<mapsto> nc)\<rparr>))))"

text \<open>The whole script: the two arrays are built, then the file is written.\<close>

definition create_level_bounds :: "world \<Rightarrow> error option \<times> world" where
  "create_level_bounds w =
     (case plev_bounds_vals of
        Inl e \<Rightarrow> (Some e, w)
      | Inr pbv \<Rightarrow> write_level_bounds plev_vals pbv w)"

section \<open>\<open>levels_check.py\<close>\<close>

text \<open>
  \<open>ds.variables[name][:]\<close>: the whole variable as an array, or \<open>KeyError\<close> when the
  file has no variable of that name. The library hands out a masked array, in which the
  elements that equal the fill value are masked; NumPy leaves masked elements out of a
  mean, masks results that are not finite, and prints a masked number as \<open>--\<close>. The
  mask is not modelled: the array below holds the stored numbers.
\<close>

definition variables_get :: "ncfile \<Rightarrow> string \<Rightarrow> error + ndarray" where
  "variables_get nc name =
     (case map_of (nc_vars nc) name of
        None \<Rightarrow> Inl (KeyError name)
      | Some v \<Rightarrow> Inr \<lparr>nd_dtype = var_dtype v, nd_shape = var_shape nc v, nd_data = var_data v\<rparr>)"

text \<open>
  An array is plain when each of its elements is a finite number of a magnitude below
  the fill value. Nothing is masked in a plain array that was read from a file, and
  neither the sum of two of its elements nor their mean nor a difference of such numbers
  overflows, so that for plain arrays the computations of the validator are the
  floating-point operations of this model. What is stated below about the numbers that
  the validator computes and prints is stated for plain arrays.
\<close>

definition plain :: "ndarray \<Rightarrow> bool" where
  "plain a =
     list_all (\<lambda>x. case x of Num q \<Rightarrow> \<bar>q\<bar> < 15 * 2 ^ 119 | NegZero \<Rightarrow> True | Inf s \<Rightarrow> False
                         | NaN \<Rightarrow> False) (nd_data a)"

text \<open>\<open>a[i]\<close> for an index \<open>i \<ge> 0\<close>: the \<open>i\<close>-th sub-array along the first axis.\<close>

definition getitem :: "ndarray \<Rightarrow> nat \<Rightarrow> error + ndarray" where
  "getitem a i =
     (case nd_shape a of
        [] \<Rightarrow> Inl IndexError
      | n # sh \<Rightarrow>
          if i < n
          then Inr \<lparr>nd_dtype = nd_dtype a, nd_shape = sh,
                    nd_data = take (prod_list sh) (drop (i * prod_list sh) (nd_data a))\<rparr>
          else Inl IndexError)"

text \<open>
  \<open>np.mean(a)\<close> of a plain array: the elements are added up one after the other in the
  array's precision, starting from the first, and the sum is divided by their number.
  NumPy adds in another order when there are eight elements or more; a bounds row has
  two, and the statements below about printed numbers are about rows of two.
\<close>

definition np_sum :: "dtype \<Rightarrow> fval list \<Rightarrow> fval" where
  "np_sum t xs = (case xs of [] \<Rightarrow> Num 0 | x # ys \<Rightarrow> foldl (fadd t) x ys)"

definition np_mean :: "ndarray \<Rightarrow> fval" where
  "np_mean a = fdiv_count (nd_dtype a) (np_sum (nd_dtype a) (nd_data a)) (length (nd_data a))"

text \<open>Decimal digits of a natural number.\<close>

fun digits :: "nat \<Rightarrow> string" where
  "digits n =
     (if n < 10 then [''0123456789'' ! n]
      else digits (n div 10) @ [''0123456789'' ! (n mod 10)])"

declare digits.simps [simp del]

definition rjust :: "nat \<Rightarrow> string \<Rightarrow> string" where
  "rjust width s = replicate (width - length s) (CHR '' '') @ s"

text \<open>
  The format specification \<open>{x:W.Pf}\<close>: the number is rounded to \<open>P\<close> decimal places
  (from its exact value, ties to even), written with a minus sign if it is negative or
  the negative zero, and padded with spaces on the left to \<open>W\<close> characters; a longer
  text is not cut. \<open>format_fixed\<close> writes the sign and the digits \<open>n\<close> of the rounded
  magnitude, the last \<open>P\<close> of them after the point.
\<close>

definition format_fixed :: "nat \<Rightarrow> nat \<Rightarrow> bool \<Rightarrow> nat \<Rightarrow> string" where
  "format_fixed width p negative n =
     (let ds = digits (n mod 10 ^ p)
      in rjust width
           ((if negative then ''-'' else []) @ digits (n div 10 ^ p) @
            (if p = 0 then [] else ''.'' @ replicate (p - length ds) (CHR ''0'') @ ds)))"

fun format_f :: "nat \<Rightarrow> nat \<Rightarrow> fval \<Rightarrow> string" where
  "format_f width p (Num q) =
     format_fixed width p (q < 0) (nat (round_half_even (\<bar>q\<bar> * 10 ^ p)))"
| "format_f width p NegZero = format_fixed width p True 0"
| "format_f width p (Inf s) = rjust width ((if s then ''-'' else []) @ ''inf'')"
| "format_f width p NaN = rjust width ''nan''"

text \<open>
  One pass of the loop body (lines 12 and 13) for the index \<open>i\<close>: the level, the
  midpoint of its bounds row and their distance. \<open>plev[i]\<close> has to be a single number
  for the format specification of line 14.
\<close>

definition check_row :: "ndarray \<Rightarrow> ndarray \<Rightarrow> nat \<Rightarrow> error + fval \<times> fval \<times> fval" where
  "check_row plev plev_bounds i =
     (case getitem plev_bounds i of
        Inl e \<Rightarrow> Inl e
      | Inr row \<Rightarrow>
          (case getitem plev i of
             Inl e \<Rightarrow> Inl e
           | Inr lev \<Rightarrow>
               (case nd_data lev of
                  [x] \<Rightarrow>
                    if nd_shape lev = []
                    then
                      let midpoint = np_mean row;
                          diff = fabs (fsub (promote (nd_dtype row) (nd_dtype lev)) midpoint x)
                      in Inr (x, midpoint, diff)
                    else Inl TypeError
                | _ \<Rightarrow> Inl TypeError)))"

text \<open>The line of line 14.\<close>

definition format_row :: "fval \<times> fval \<times> fval \<Rightarrow> string" where
  "format_row r =
     (case r of (lev, midpoint, diff) \<Rightarrow>
        ''plev: '' @ format_f 8 1 lev @ '' | midpoint: '' @ format_f 8 1 midpoint @
        '' | diff: '' @ format_f 6 1 diff)"

text \<open>The \<open>for\<close> loop over the indices: it stops at the first index that raises.\<close>

fun check_loop :: "ndarray \<Rightarrow> ndarray \<Rightarrow> nat list \<Rightarrow> world \<Rightarrow> error option \<times> world" where
  "check_loop plev plev_bounds [] w = (None, w)"
| "check_loop plev plev_bounds (i # is) w =
     (case check_row plev plev_bounds i of
        Inl e \<Rightarrow> (Some e, w)
      | Inr r \<Rightarrow> check_loop plev plev_bounds is (print (format_row r) w))"

text \<open>The whole script. The file it opens is not closed by the script.\<close>

definition levels_check :: "world \<Rightarrow> error option \<times> world" where
  "levels_check w =
     (case Dataset_r ''level_bounds.nc'' w of
        Inl e \<Rightarrow> (Some e, w)
      | Inr (ds, w1) \<Rightarrow>
          (case variables_get ds ''plev'' of
             Inl e \<Rightarrow> (Some e, w1)
           | Inr plev \<Rightarrow>
               (case variables_get ds ''plev_bounds'' of
                  Inl e \<Rightarrow> (Some e, w1)
                | Inr plev_bounds \<Rightarrow>
                    (case len plev of
                       Inl e \<Rightarrow> (Some e, w1)
                     | Inr n \<Rightarrow> check_loop plev plev_bounds [0..<n] w1))))"

section \<open>Properties of the data\<close>

text \<open>
  Comparison of two numbers (false whenever one of them is NaN), and the properties of
  a level array and a bounds array that the statements below speak about: the bounds
  row \<open>i\<close> brackets the level \<open>i\<close>, its upper bound lies above its lower bound, and its
  lower bound is the upper bound of the next row.
\<close>

fun fle :: "fval \<Rightarrow> fval \<Rightarrow> bool" where
  "fle (Num a) (Num b) = (a \<le> b)"
| "fle NaN y = False"
| "fle x NaN = False"
| "fle NegZero NegZero = True"
| "fle NegZero (Num b) = (0 \<le> b)"
| "fle (Num a) NegZero = (a \<le> 0)"
| "fle NegZero (Inf u) = (\<not> u)"
| "fle (Inf s) NegZero = s"
| "fle (Inf s) (Inf u) = (s \<or> \<not> u)"
| "fle (Inf s) (Num b) = s"
| "fle (Num a) (Inf u) = (\<not> u)"

definition flt :: "fval \<Rightarrow> fval \<Rightarrow> bool" where
  "flt x y = (fle x y \<and> \<not> fle y x)"

definition brackets :: "ndarray \<Rightarrow> ndarray \<Rightarrow> nat \<Rightarrow> bool" where
  "brackets pv pbv i =
     (case (getitem pv i, getitem pbv i) of
        (Inr lev, Inr row) \<Rightarrow>
          (case (nd_data lev, nd_data row) of
             ([x], [upper, lower]) \<Rightarrow> fle x upper \<and> fle lower x
           | _ \<Rightarrow> False)
      | _ \<Rightarrow> False)"

definition upper_above_lower :: "ndarray \<Rightarrow> nat \<Rightarrow> bool" where
  "upper_above_lower pbv i =
     (case getitem pbv i of
        Inr row \<Rightarrow> (case nd_data row of [upper, lower] \<Rightarrow> flt lower upper | _ \<Rightarrow> False)
      | _ \<Rightarrow> False)"

definition contiguous :: "ndarray \<Rightarrow> nat \<Rightarrow> bool" where
  "contiguous pbv i =
     (case (getitem pbv i, getitem pbv (i + 1)) of
        (Inr row, Inr row') \<Rightarrow>
          (case (nd_data row, nd_data row') of
             ([upper, lower], [upper', lower']) \<Rightarrow> lower = upper'
           | _ \<Rightarrow> False)
      | _ \<Rightarrow> False)"

text \<open>
  The midpoint of a bounds pair as the specification words it,
  \<open>(bounds[i][0] + bounds[i][1]) / 2\<close>, in floating-point arithmetic of precision \<open>t\<close>.
\<close>

definition spec_midpoint :: "dtype \<Rightarrow> fval \<Rightarrow> fval \<Rightarrow> fval" where
  "spec_midpoint t b0 b1 = fdiv_count t (fadd t b0 b1) 2"

text \<open>The line that the loop of \<open>levels_check.py\<close> prints for the index \<open>i\<close>.\<close>

definition row_line :: "ndarray \<Rightarrow> ndarray \<Rightarrow> nat \<Rightarrow> string" where
  "row_line plev plev_bounds i =
     (case check_row plev plev_bounds i of Inr r \<Rightarrow> format_row r | Inl e \<Rightarrow> [])"

text \<open>
  The content of \<open>level_bounds.nc\<close> that \<open>create_level_bounds.py\<close> is shown below
  to write.
\<close>

definition generated_nc :: ncfile where
  "generated_nc =
     \<lparr>nc_dims = [(''plev'', 8), (''bnds'', 2)],
      nc_vars =
        [(''plev'',
          \<lparr>var_dtype = F8, var_dims = [''plev''],
           var_attrs =
             [(''standard_name'', ''air_pressure''), (''long_name'', ''Pressure Level''),
              (''units'', ''Pa''), (''positive'', ''down''), (''axis'', ''Z''),
              (''_CoordinateAxisType'', ''Pressure''), (''bounds'', ''plev_bounds'')],
           var_data =
             [Num 100000, Num 92500, Num 85000, Num 70000,
              Num 60000, Num 50000, Num 40000, Num 30000]\<rparr>),
         (''plev_bounds'',
          \<lparr>var_dtype = F8, var_dims = [''plev'', ''bnds''], var_attrs = [],
           var_data =
             [Num 101325, Num 96250, Num 96250, Num 88750, Num 88750, Num 72500,
              Num 72500, Num 65000, Num 65000, Num 55000, Num 55000, Num 45000,
              Num 45000, Num 35000, Num 35000, Num 25000]\<rparr>)],
      nc_attrs = [(''history'', ''Created with custom python script on YYYY-MM-DD'')]\<rparr>"

section \<open>Example worlds\<close>

text \<open>A world without files, in which every path can be written.\<close>

definition fresh_world :: world where
  "fresh_world =
     \<lparr>files = Map.empty, writable = (\<lambda>p. True), failed_create_removes = (\<lambda>p. False),
      open_files = [], stdout = []\<rparr>"

text \<open>A file with two levels and their two bounds rows.\<close>

definition scenario_nc :: ncfile where
  "scenario_nc =
     \<lparr>nc_dims = [(''plev'', 2), (''bnds'', 2)],
      nc_vars =
        [(''plev'', \<lparr>var_dtype = F8, var_dims = [''plev''], var_attrs = [],
                     var_data = [Num 100000, Num 92500]\<rparr>),
         (''plev_bounds'', \<lparr>var_dtype = F8, var_dims = [''plev'', ''bnds''], var_attrs = [],
                     var_data = [Num 101325, Num 96250, Num 96250, Num 88750]\<rparr>)],
      nc_attrs = []\<rparr>"

text \<open>A file with two levels whose bounds variable has one row only.\<close>

definition mismatch_nc :: ncfile where
  "mismatch_nc =
     \<lparr>nc_dims = [(''plev'', 2), (''lev2'', 1), (''bnds'', 2)],
      nc_vars =
        [(''plev'', \<lparr>var_dtype = F8, var_dims = [''plev''], var_attrs = [],
                     var_data = [Num 100000, Num 92500]\<rparr>),
         (''plev_bounds'', \<lparr>var_dtype = F8, var_dims = [''lev2'', ''bnds''], var_attrs = [],
                     var_data = [Num 101325, Num 96250]\<rparr>)],
      nc_attrs = []\<rparr>"

text \<open>A file without the variable \<open>plev_bounds\<close>.\<close>

definition no_bounds_nc :: ncfile where
  "no_bounds_nc =
     \<lparr>nc_dims = [(''plev'', 2)],
      nc_vars =
        [(''plev'', \<lparr>var_dtype = F8, var_dims = [''plev''], var_attrs = [],
                     var_data = [Num 100000, Num 92500]\<rparr>)],
      nc_attrs = []\<rparr>"

text \<open>The world in which \<open>level_bounds.nc\<close> is the given file and nothing was printed.\<close>

definition world_with :: "ncfile \<Rightarrow> world" where
  "world_with nc =
     \<lparr>files = [''level_bounds.nc'' \<mapsto> nc], writable = (\<lambda>p. True),
      failed_create_removes = (\<lambda>p. False), open_files = [], stdout = []\<rparr>"

text \<open>
  A world in which \<open>level_bounds.nc\<close> exists and cannot be written, and a failed create
  touches nothing.
\<close>

definition readonly_world :: world where
  "readonly_world =
     \<lparr>files = [''level_bounds.nc'' \<mapsto> scenario_nc], writable = (\<lambda>p. False),
      failed_create_removes = (\<lambda>p. False), open_files = [], stdout = []\<rparr>"

text \<open>
  A world in which \<open>level_bounds.nc\<close> exists and cannot be written, and the create that
  fails has removed the old file.
\<close>

definition clobbering_world :: world where
  "clobbering_world =
     \<lparr>files = [''level_bounds.nc'' \<mapsto> scenario_nc], writable = (\<lambda>p. False),
      failed_create_removes = (\<lambda>p. True), open_files = [], stdout = []\<rparr>"

section \<open>Evaluation of the configured constants\<close>

lemma floor_rat_numeral_div: "\<lfloor>numeral a / numeral b :: rat\<rfloor> = numeral a div numeral b"
  using floor_divide_of_int_eq [of "numeral a" "numeral b", where ?'a = rat] by simp

lemma floor_rat_neg_numeral_div:
  "\<lfloor>- (numeral a / numeral b) :: rat\<rfloor> = - numeral a div numeral b"
  using floor_divide_of_int_eq [of "- numeral a" "numeral b", where ?'a = rat] by simp

lemma floor_rat_one_div: "\<lfloor>1 / numeral b :: rat\<rfloor> = 1 div numeral b"
  using floor_divide_of_int_eq [of 1 "numeral b", where ?'a = rat] by simp

lemma ceiling_rat_numeral_div:
  "\<lceil>numeral a / numeral b :: rat\<rceil> = - (- numeral a div numeral b)"
  by (simp add: ceiling_def floor_rat_neg_numeral_div)

lemma ceiling_rat_one_div: "\<lceil>1 / numeral b :: rat\<rceil> = - (- 1 div numeral b)"
  using floor_divide_of_int_eq [of "- 1" "numeral b", where ?'a = rat]
  by (simp add: ceiling_def)

lemma bitlen_0: "bitlen 0 = 0"
  by (simp add: bitlen.simps)

lemma bitlen_numeral: "bitlen (numeral k) = Suc (bitlen (numeral k div 2))"
  by (subst bitlen.simps) simp

lemma bitlen_1: "bitlen (Suc 0) = Suc 0"
  by (simp add: bitlen.simps)

lemmas fl_eval = round_to_def ilog2_def pow2_def round_half_even_def Let_def
  bitlen_0 bitlen_1 bitlen_numeral
  floor_rat_numeral_div floor_rat_neg_numeral_div floor_rat_one_div
  ceiling_rat_numeral_div ceiling_rat_one_div

lemma f32_consts:
  "round_dtype F4 100000 = Num 100000" "round_dtype F4 92500 = Num 92500"
  "round_dtype F4 85000 = Num 85000" "round_dtype F4 70000 = Num 70000"
  "round_dtype F4 60000 = Num 60000" "round_dtype F4 50000 = Num 50000"
  "round_dtype F4 40000 = Num 40000" "round_dtype F4 30000 = Num 30000"
  "round_dtype F4 101325 = Num 101325" "round_dtype F4 96250 = Num 96250"
  "round_dtype F4 88750 = Num 88750" "round_dtype F4 72500 = Num 72500"
  "round_dtype F4 65000 = Num 65000" "round_dtype F4 55000 = Num 55000"
  "round_dtype F4 45000 = Num 45000" "round_dtype F4 35000 = Num 35000"
  "round_dtype F4 25000 = Num 25000"
  by (simp_all add: fl_eval)

lemma f64_consts:
  "round_dtype F8 100000 = Num 100000" "round_dtype F8 92500 = Num 92500"
  "round_dtype F8 85000 = Num 85000" "round_dtype F8 70000 = Num 70000"
  "round_dtype F8 60000 = Num 60000" "round_dtype F8 50000 = Num 50000"
  "round_dtype F8 40000 = Num 40000" "round_dtype F8 30000 = Num 30000"
  "round_dtype F8 101325 = Num 101325" "round_dtype F8 96250 = Num 96250"
  "round_dtype F8 88750 = Num 88750" "round_dtype F8 72500 = Num 72500"
  "round_dtype F8 65000 = Num 65000" "round_dtype F8 55000 = Num 55000"
  "round_dtype F8 45000 = Num 45000" "round_dtype F8 35000 = Num 35000"
  "round_dtype F8 25000 = Num 25000"
  by (simp_all add: fl_eval)

lemma plev_vals_eq:
  "plev_vals = \<lparr>nd_dtype = F4, nd_shape = [8],
     nd_data = [Num 100000, Num 92500, Num 85000, Num 70000,
                Num 60000, Num 50000, Num 40000, Num 30000]\<rparr>"
  by (simp add: plev_vals_def np_array1_def plev_list_def float32_of_int_def
      f64_consts f32_consts del: round_dtype.simps)

lemma plev_bounds_vals_eq:
  "plev_bounds_vals = Inr \<lparr>nd_dtype = F4, nd_shape = [8, 2],
     nd_data = [Num 101325, Num 96250, Num 96250, Num 88750, Num 88750, Num 72500,
                Num 72500, Num 65000, Num 65000, Num 55000, Num 55000, Num 45000,
                Num 45000, Num 35000, Num 35000, Num 25000]\<rparr>"
  by (simp add: plev_bounds_vals_def np_array2_def plev_bounds_list_def float32_of_int_def
      f64_consts f32_consts del: round_dtype.simps)

lemma upt_0_8: "[0..<8] = [0, 1, 2, 3, 4, 5, 6, 7]"
  by code_simp

lemma upt_0_7: "[0..<7] = [0, 1, 2, 3, 4, 5, 6]"
  by code_simp

text \<open>
  Claim C9. The configured constants satisfy the invariant of the data model, which the
  script never checks: \<open>plev_vals\<close> and \<open>plev_bounds_vals\<close> both have length 8, and
  for every index the bounds pair brackets its level, upper bound \<open>\<ge>\<close> level \<open>\<ge>\<close> lower
  bound.
\<close>

theorem constants_bracketed:
  "len plev_vals = Inr 8 \<and>
   (\<exists>pbv. plev_bounds_vals = Inr pbv \<and> len pbv = Inr 8 \<and>
      list_all (brackets plev_vals pbv) [0..<8])"
  by (simp add: plev_vals_eq plev_bounds_vals_eq len_def brackets_def getitem_def
      upt_0_8 upt_0_7)

text \<open>
  Claim C10. The configured layers are strictly ordered and contiguous: \<open>plev_vals\<close> is
  strictly decreasing, every bounds pair has its upper bound above its lower bound, and
  for every \<open>i < 7\<close> the lower bound of pair \<open>i\<close> is the upper bound of pair \<open>i + 1\<close>.
\<close>

theorem constants_ordered_contiguous:
  "sorted_wrt (\<lambda>x y. flt y x) (nd_data plev_vals) \<and>
   (\<exists>pbv. plev_bounds_vals = Inr pbv \<and>
      list_all (upper_above_lower pbv) [0..<8] \<and>
      list_all (contiguous pbv) [0..<7])"
  by (simp add: plev_vals_eq plev_bounds_vals_eq flt_def upper_above_lower_def
      contiguous_def getitem_def upt_0_8 upt_0_7)

section \<open>Numbers that rounding leaves unchanged\<close>

text \<open>
  A number \<open>k * 2^e\<close> whose integer \<open>k\<close> fits the significand, whose exponent is not
  below that of the smallest subnormal number, and whose magnitude is below the overflow
  threshold, is representable: rounding returns it. So integers below \<open>2^24\<close> are exact
  in \<open>float32\<close>, and integers and halves of integers below \<open>2^53\<close> in \<open>float64\<close>.
\<close>

lemma pow2_powi: "pow2 e = 2 powi e"
  by (simp add: pow2_def power_int_def inverse_eq_divide power_one_over)

lemma pow2_pos: "0 < pow2 e"
  by (simp add: pow2_powi)

lemma pow2_add: "pow2 (a + b) = pow2 a * pow2 b"
  by (simp add: pow2_powi power_int_add)

lemma pow2_nat: "pow2 (int n) = 2 ^ n"
  by (simp add: pow2_powi)

lemma pow2_less_imp: "pow2 a < pow2 b \<Longrightarrow> a < b"
proof (rule ccontr)
  assume l: "pow2 a < pow2 b" and "\<not> a < b"
  then have "b \<le> a" by simp
  then have "pow2 b \<le> pow2 a"
    unfolding pow2_powi by (intro power_int_increasing) simp_all
  with l show False by simp
qed

lemma bitlen_upper: "n < 2 ^ bitlen n"
proof (induction n rule: bitlen.induct)
  case (1 n)
  show ?case
  proof (cases "n = 0")
    case True
    then show ?thesis by (simp add: bitlen.simps)
  next
    case False
    with 1 have "n div 2 < 2 ^ bitlen (n div 2)" by simp
    then have "n < 2 * 2 ^ bitlen (n div 2)" by linarith
    with False show ?thesis by (subst bitlen.simps) simp
  qed
qed

lemma bitlen_lower: "0 < n \<Longrightarrow> 2 ^ (bitlen n - 1) \<le> n"
proof (induction n rule: bitlen.induct)
  case (1 n)
  then have n: "n \<noteq> 0" by simp
  have b: "bitlen n = Suc (bitlen (n div 2))"
    using n by (subst bitlen.simps) simp
  show ?case
  proof (cases "n div 2 = 0")
    case True
    then show ?thesis using n b by (simp add: bitlen.simps)
  next
    case False
    with 1 n have ih: "2 ^ (bitlen (n div 2) - 1) \<le> n div 2" by simp
    have "bitlen (n div 2) \<noteq> 0"
      using False by (subst bitlen.simps) simp
    then obtain c where c: "bitlen (n div 2) = Suc c"
      by (cases "bitlen (n div 2)") simp_all
    from ih c have "2 * 2 ^ c \<le> 2 * (n div 2)" by simp
    also have "\<dots> \<le> n" by simp
    finally show ?thesis using b c by simp
  qed
qed

lemma ilog2_lower:
  assumes "0 < q"
  shows "pow2 (ilog2 q) \<le> q"
proof (cases "1 \<le> q")
  case True
  define n where "n = nat \<lfloor>q\<rfloor>"
  have n: "0 < n" and nq: "of_nat n \<le> q"
    using True by (simp_all add: n_def le_floor_iff)
  then obtain c where c: "bitlen n = Suc c"
    using bitlen_upper [of n] by (cases "bitlen n") simp_all
  have "(2::nat) ^ c \<le> n"
    using bitlen_lower [OF n] c by simp
  then have "(2::rat) ^ c \<le> of_nat n"
    by (metis of_nat_le_iff of_nat_numeral of_nat_power)
  moreover have "ilog2 q = int c"
    using True c by (simp add: ilog2_def n_def)
  then have "pow2 (ilog2 q) = 2 ^ c"
    by (simp only: pow2_nat)
  ultimately show ?thesis
    using nq by (simp only: order_trans)
next
  case False
  define m where "m = nat (\<lceil>1 / q\<rceil> - 1)"
  have "1 < 1 / q"
    using False assms by simp
  then have c1: "1 \<le> \<lceil>1 / q\<rceil> - 1"
    by (smt (verit) ceiling_le_one less_le_not_le of_int_1 le_of_int_ceiling less_ceiling_iff)
  have "int m < 2 ^ bitlen m"
    using bitlen_upper [of m] by (metis of_nat_less_iff of_nat_numeral of_nat_power)
  moreover have "int m = \<lceil>1 / q\<rceil> - 1"
    unfolding m_def using c1 by (intro nat_0_le) linarith
  ultimately have "\<lceil>1 / q\<rceil> \<le> 2 ^ bitlen m"
    by linarith
  then have "1 / q \<le> 2 ^ bitlen m"
    by (metis ceiling_le_iff of_int_numeral of_int_power)
  then have "1 / 2 ^ bitlen m \<le> q"
    using assms by (simp add: field_simps)
  moreover have "ilog2 q = - int (bitlen m)"
    using False by (simp add: ilog2_def m_def)
  ultimately show ?thesis
    by (auto simp add: pow2_def)
qed

lemma round_half_even_of_int: "round_half_even (of_int j) = j"
  by (simp add: round_half_even_def)

lemma round_to_exact:
  assumes q: "q = of_int k * pow2 e" and k: "k \<noteq> 0" and kp: "\<bar>k\<bar> < 2 ^ p"
    and e: "(1 - emax) - (int p - 1) \<le> e" and big: "\<bar>q\<bar> < pow2 (emax + 1)"
  shows "round_to p emax q = Num q"
proof -
  define E where "E = max (ilog2 \<bar>q\<bar>) (1 - emax) - (int p - 1)"
  have q0: "q \<noteq> 0"
    using q k pow2_pos [of e] by simp
  have "\<bar>q\<bar> = of_int \<bar>k\<bar> * pow2 e"
    using q pow2_pos [of e] by (simp add: abs_mult)
  also have "\<dots> < 2 ^ p * pow2 e"
    using kp pow2_pos [of e]
    by (metis mult_strict_right_mono of_int_less_iff of_int_numeral of_int_power)
  also have "\<dots> = pow2 (int p + e)"
    by (simp add: pow2_add pow2_nat)
  finally have "\<bar>q\<bar> < pow2 (int p + e)" .
  moreover have "pow2 (ilog2 \<bar>q\<bar>) \<le> \<bar>q\<bar>"
    using q0 by (intro ilog2_lower) simp
  ultimately have "pow2 (ilog2 \<bar>q\<bar>) < pow2 (int p + e)"
    by simp
  then have "ilog2 \<bar>q\<bar> < int p + e"
    by (rule pow2_less_imp)
  with e have Ee: "E \<le> e"
    by (simp add: E_def)
  then obtain d where d: "e = E + int d"
    by (metis zle_iff_zadd)
  have j: "q / pow2 E = of_int (k * 2 ^ d)"
    using pow2_pos [of E] by (simp add: q d pow2_add pow2_nat)
  have "round_half_even (q / pow2 E) = k * 2 ^ d"
    by (simp only: j round_half_even_of_int)
  moreover have "of_int (k * 2 ^ d) * pow2 E = q"
    by (simp add: q d pow2_add pow2_nat)
  ultimately have "of_int (round_half_even (q / pow2 E)) * pow2 E = q"
    by simp
  then show ?thesis
    using q0 big by (simp add: round_to_def E_def Let_def)
qed

lemma f64_int_exact:
  assumes "\<bar>k\<bar> < 2 ^ 53"
  shows "round_dtype F8 (of_int k) = Num (of_int k)"
proof (cases "k = 0")
  case True
  then show ?thesis by (simp add: round_to_def)
next
  case False
  have "\<bar>of_int k :: rat\<bar> < 2 ^ 53"
    using assms by (metis of_int_abs of_int_less_iff of_int_numeral of_int_power)
  also have "(2::rat) ^ 53 < pow2 (1023 + 1)"
    by (simp add: pow2_def)
  finally have "\<bar>of_int k :: rat\<bar> < pow2 (1023 + 1)" .
  then show ?thesis
    using round_to_exact [of "of_int k" k 0 53 1023] False assms
    by (simp add: pow2_def)
qed

lemma f64_half_int_exact:
  assumes "\<bar>k\<bar> < 2 ^ 53"
  shows "round_dtype F8 (of_int k / 2) = Num (of_int k / 2)"
proof (cases "k = 0")
  case True
  then show ?thesis by (simp add: round_to_def)
next
  case False
  have "\<bar>of_int k :: rat\<bar> < 2 ^ 53"
    using assms by (metis of_int_abs of_int_less_iff of_int_numeral of_int_power)
  then have "\<bar>of_int k / 2 :: rat\<bar> < 2 ^ 53"
    by simp
  also have "(2::rat) ^ 53 < pow2 (1023 + 1)"
    by (simp add: pow2_def)
  finally have "\<bar>of_int k / 2 :: rat\<bar> < pow2 (1023 + 1)" .
  then show ?thesis
    using round_to_exact [of "of_int k / 2" k "- 1" 53 1023] False assms
    by (simp add: pow2_def)
qed

lemma f32_int_exact:
  assumes "\<bar>k\<bar> < 2 ^ 24"
  shows "round_dtype F4 (of_int k) = Num (of_int k)"
proof (cases "k = 0")
  case True
  then show ?thesis by (simp add: round_to_def)
next
  case False
  have "\<bar>of_int k :: rat\<bar> < 2 ^ 24"
    using assms by (metis of_int_abs of_int_less_iff of_int_numeral of_int_power)
  also have "(2::rat) ^ 24 < pow2 (127 + 1)"
    by (simp add: pow2_def)
  finally have "\<bar>of_int k :: rat\<bar> < pow2 (127 + 1)" .
  then show ?thesis
    using round_to_exact [of "of_int k" k 0 24 127] False assms
    by (simp add: pow2_def)
qed

lemma float32_of_int_exact:
  assumes "\<bar>x\<bar> < 2 ^ 24"
  shows "float32_of_int x = Num (of_int x)"
proof -
  have "\<bar>x\<bar> < 2 ^ 53"
    using assms by simp
  then have "round_dtype F8 (of_int x) = Num (of_int x)"
    by (rule f64_int_exact)
  moreover have "round_dtype F4 (of_int x) = Num (of_int x)"
    using assms by (rule f32_int_exact)
  ultimately show ?thesis
    by (simp add: float32_of_int_def del: round_dtype.simps)
qed

lemma widening_exact:
  assumes "\<forall>x\<in>set xs. \<bar>x\<bar> < 2 ^ 24"
  shows "nd_data (np_array1 xs) = map (\<lambda>x. Num (of_int x)) xs"
    and "map (cast F8) (nd_data (np_array1 xs)) = map (\<lambda>x. Num (of_int x)) xs"
proof -
  have a: "float32_of_int x = Num (of_int x)" if "x \<in> set xs" for x
    using assms that by (intro float32_of_int_exact) simp
  have b: "round_dtype F8 (of_int x) = Num (of_int x)" if "x \<in> set xs" for x
  proof -
    have "\<bar>x\<bar> < 2 ^ 24" using assms that by simp
    also have "(2::int) ^ 24 < 2 ^ 53" by simp
    finally show ?thesis by (rule f64_int_exact)
  qed
  show "nd_data (np_array1 xs) = map (\<lambda>x. Num (of_int x)) xs"
    using a by (simp add: np_array1_def)
  then show "map (cast F8) (nd_data (np_array1 xs)) = map (\<lambda>x. Num (of_int x)) xs"
    using b by (simp del: round_dtype.simps)
qed

lemma spec_midpoint_int_exact:
  assumes "\<bar>x + y\<bar> < 2 ^ 53"
  shows "spec_midpoint F8 (Num (of_int x)) (Num (of_int y)) = Num ((of_int x + of_int y) / 2)"
proof -
  have "round_dtype F8 (of_int x + of_int y) = Num (of_int (x + y))"
    using f64_int_exact [OF assms] by simp
  moreover have "round_dtype F8 (of_int (x + y) / 2) = Num (of_int (x + y) / 2)"
    using assms by (rule f64_half_int_exact)
  ultimately show ?thesis
    by (simp add: spec_midpoint_def del: round_dtype.simps)
qed

lemma fsub_Num: "fsub t (Num a) (Num b) = round_dtype t (a - b)"
  by (simp add: fsub_def del: round_dtype.simps)

lemma diff_int_exact:
  assumes "\<bar>x + y - 2 * l\<bar> < 2 ^ 53"
  shows "fabs (fsub F8 (Num ((of_int x + of_int y) / 2)) (Num (of_int l))) =
    Num \<bar>(of_int x + of_int y) / 2 - of_int l\<bar>"
proof -
  have "(of_int x + of_int y) / 2 - of_int l = (of_int (x + y - 2 * l) / 2 :: rat)"
    by (simp add: field_simps)
  moreover have "round_dtype F8 (of_int (x + y - 2 * l) / 2) = Num (of_int (x + y - 2 * l) / 2)"
    using assms by (rule f64_half_int_exact)
  ultimately have "fsub F8 (Num ((of_int x + of_int y) / 2)) (Num (of_int l)) =
      Num ((of_int x + of_int y) / 2 - of_int l)"
    by (simp only: fsub_Num)
  then show ?thesis
    by simp
qed

section \<open>The generator\<close>

lemma run_write_steps:
  assumes "nd_shape pv = [n]" and "nd_shape pbv = [n, 2]"
  shows "run_steps (write_steps pv pbv) empty_nc =
    (None,
     \<lparr>nc_dims = [(''plev'', n), (''bnds'', 2)],
      nc_vars =
        [(''plev'',
          \<lparr>var_dtype = F8, var_dims = [''plev''],
           var_attrs =
             [(''standard_name'', ''air_pressure''), (''long_name'', ''Pressure Level''),
              (''units'', ''Pa''), (''positive'', ''down''), (''axis'', ''Z''),
              (''_CoordinateAxisType'', ''Pressure''), (''bounds'', ''plev_bounds'')],
           var_data = map (cast F8) (nd_data pv)\<rparr>),
         (''plev_bounds'',
          \<lparr>var_dtype = F8, var_dims = [''plev'', ''bnds''], var_attrs = [],
           var_data = map (cast F8) (nd_data pbv)\<rparr>)],
      nc_attrs = [(''history'', ''Created with custom python script on YYYY-MM-DD'')]\<rparr>)"
  using assms
  by (simp add: write_steps_def len_def createDimension_def createVariable_def
      var_assign_def var_setattr_def nc_setattr_def update_var_def set_attr_def
      var_shape_def dim_size_def empty_nc_def)

lemma write_level_bounds_result:
  assumes "writable w ''level_bounds.nc''"
  shows "write_level_bounds pv pbv w =
    (fst (run_steps (write_steps pv pbv) empty_nc),
     w\<lparr>files := (files w)(''level_bounds.nc'' \<mapsto> snd (run_steps (write_steps pv pbv) empty_nc))\<rparr>)"
  using assms
  by (simp add: write_level_bounds_def Dataset_w_def close_file_def split: prod.splits)

text \<open>
  Levels given as integers below \<open>2^24\<close> come back from the written file unchanged:
  neither the conversion to \<open>float32\<close> nor the widening to \<open>float64\<close> rounds.
\<close>

lemma levels_round_trip:
  assumes "writable w ''level_bounds.nc''"
    and "\<forall>x\<in>set xs. \<bar>x\<bar> < 2 ^ 24"
    and "nd_shape pbv = [length xs, 2]"
  shows "\<exists>w' ds w'' a.
      write_level_bounds (np_array1 xs) pbv w = (None, w') \<and>
      Dataset_r ''level_bounds.nc'' w' = Inr (ds, w'') \<and>
      variables_get ds ''plev'' = Inr a \<and>
      nd_dtype a = F8 \<and> nd_shape a = [length xs] \<and>
      nd_data a = map (\<lambda>x. Num (of_int x)) xs \<and>
      nd_data a = nd_data (np_array1 xs)"
proof -
  have s: "nd_shape (np_array1 xs) = [length xs]"
    by (simp add: np_array1_def)
  show ?thesis
    using assms(1) widening_exact [OF assms(2)]
    by (simp add: write_level_bounds_result run_write_steps [OF s assms(3)] Dataset_r_def
        variables_get_def var_shape_def dim_size_def)
qed

lemma create_level_bounds_result:
  assumes "writable w ''level_bounds.nc''"
  shows "create_level_bounds w =
    (None, w\<lparr>files := (files w)(''level_bounds.nc'' \<mapsto> generated_nc)\<rparr>)"
proof -
  let ?pbv = "\<lparr>nd_dtype = F4, nd_shape = [8, 2],
     nd_data = [Num 101325, Num 96250, Num 96250, Num 88750, Num 88750, Num 72500,
                Num 72500, Num 65000, Num 65000, Num 55000, Num 55000, Num 45000,
                Num 45000, Num 35000, Num 35000, Num 25000]\<rparr>"
  have "run_steps (write_steps plev_vals ?pbv) empty_nc = (None, generated_nc)"
    by (subst run_write_steps [where n = 8])
      (simp_all add: plev_vals_eq generated_nc_def f64_consts del: round_dtype.simps)
  then show ?thesis
    using assms
    by (simp add: create_level_bounds_def plev_bounds_vals_eq write_level_bounds_result)
qed

lemma generated_arrays:
  "variables_get generated_nc ''plev'' =
     Inr \<lparr>nd_dtype = F8, nd_shape = [8],
           nd_data = [Num 100000, Num 92500, Num 85000, Num 70000,
                      Num 60000, Num 50000, Num 40000, Num 30000]\<rparr>"
  "variables_get generated_nc ''plev_bounds'' =
     Inr \<lparr>nd_dtype = F8, nd_shape = [8, 2],
           nd_data = [Num 101325, Num 96250, Num 96250, Num 88750, Num 88750, Num 72500,
                      Num 72500, Num 65000, Num 65000, Num 55000, Num 55000, Num 45000,
                      Num 45000, Num 35000, Num 35000, Num 25000]\<rparr>"
  by (simp_all add: variables_get_def generated_nc_def var_shape_def dim_size_def)

text \<open>
  Claim C1. Round trip: reading \<open>plev\<close> and \<open>plev_bounds\<close> back from the file that
  the generator has just written yields the sequences of the configured constants,
  element by element and in the same order; the widening from \<open>float32\<close> to
  \<open>float64\<close> changes no value.
\<close>

theorem round_trip:
  assumes "writable w ''level_bounds.nc''"
  shows "\<exists>w' ds w'' a b pbv.
      create_level_bounds w = (None, w') \<and>
      Dataset_r ''level_bounds.nc'' w' = Inr (ds, w'') \<and>
      variables_get ds ''plev'' = Inr a \<and>
      variables_get ds ''plev_bounds'' = Inr b \<and>
      plev_bounds_vals = Inr pbv \<and>
      nd_shape a = nd_shape plev_vals \<and> nd_data a = nd_data plev_vals \<and>
      nd_shape b = nd_shape pbv \<and> nd_data b = nd_data pbv \<and>
      nd_data a = map (\<lambda>x. Num (of_int x)) plev_list \<and>
      nd_data b = map (\<lambda>x. Num (of_int x)) (concat plev_bounds_list)"
  using assms
  by (simp add: create_level_bounds_result Dataset_r_def generated_arrays
      plev_vals_eq plev_bounds_vals_eq plev_list_def plev_bounds_list_def)

theorem round_trip_witness:
  "writable fresh_world ''level_bounds.nc'' \<and>
   (\<exists>w' ds w'' a b.
      create_level_bounds fresh_world = (None, w') \<and>
      Dataset_r ''level_bounds.nc'' w' = Inr (ds, w'') \<and>
      variables_get ds ''plev'' = Inr a \<and>
      variables_get ds ''plev_bounds'' = Inr b \<and>
      nd_data a = map (\<lambda>x. Num (of_int x)) plev_list \<and>
      nd_data b = map (\<lambda>x. Num (of_int x)) (concat plev_bounds_list))"
proof -
  have h: "writable fresh_world ''level_bounds.nc''"
    by (simp add: fresh_world_def)
  from round_trip [OF h] show ?thesis
    using h by blast
qed

text \<open>
  Claim C4. For arrays of \<open>n\<close> levels and \<open>n\<close> bounds pairs, of any precision, the
  written file has the dimension \<open>plev\<close> of size \<open>n\<close> and the dimension \<open>bnds\<close> of
  size 2, and the variables \<open>plev\<close> (over \<open>plev\<close>) and \<open>plev_bounds\<close> (over \<open>plev\<close>
  and \<open>bnds\<close>) are both stored as 64-bit floating point. The configured arrays are
  \<open>float32\<close> and have \<open>n = 8\<close>.
\<close>

theorem output_dimensions_and_types:
  assumes "writable w ''level_bounds.nc''"
    and "nd_shape pv = [n]" and "nd_shape pbv = [n, 2]" and "0 < n"
  shows "\<exists>w' nc vp vb.
      write_level_bounds pv pbv w = (None, w') \<and>
      files w' ''level_bounds.nc'' = Some nc \<and>
      len pv = Inr n \<and>
      nc_dims nc = [(''plev'', n), (''bnds'', 2)] \<and>
      map_of (nc_vars nc) ''plev'' = Some vp \<and>
      var_dtype vp = F8 \<and> var_dims vp = [''plev''] \<and>
      map_of (nc_vars nc) ''plev_bounds'' = Some vb \<and>
      var_dtype vb = F8 \<and> var_dims vb = [''plev'', ''bnds'']"
  using assms
  by (simp add: write_level_bounds_result run_write_steps len_def)

theorem output_dimensions_and_types_witness:
  "writable fresh_world ''level_bounds.nc'' \<and>
   nd_dtype plev_vals = F4 \<and> nd_shape plev_vals = [8] \<and> (0::nat) < 8 \<and>
   (\<exists>pbv w' nc vp vb.
      plev_bounds_vals = Inr pbv \<and> nd_dtype pbv = F4 \<and> nd_shape pbv = [8, 2] \<and>
      create_level_bounds fresh_world = (None, w') \<and>
      files w' ''level_bounds.nc'' = Some nc \<and>
      nc_dims nc = [(''plev'', 8), (''bnds'', 2)] \<and>
      map_of (nc_vars nc) ''plev'' = Some vp \<and> var_dtype vp = F8 \<and>
      map_of (nc_vars nc) ''plev_bounds'' = Some vb \<and> var_dtype vb = F8)"
proof -
  let ?pbv = "\<lparr>nd_dtype = F4, nd_shape = [8, 2],
     nd_data = [Num 101325, Num 96250, Num 96250, Num 88750, Num 88750, Num 72500,
                Num 72500, Num 65000, Num 65000, Num 55000, Num 55000, Num 45000,
                Num 45000, Num 35000, Num 35000, Num 25000]\<rparr>"
  have h: "writable fresh_world ''level_bounds.nc''"
    by (simp add: fresh_world_def)
  have s1: "nd_shape plev_vals = [8]" and s2: "nd_shape ?pbv = [8, 2]"
    by (simp_all add: plev_vals_eq)
  have c: "create_level_bounds fresh_world = write_level_bounds plev_vals ?pbv fresh_world"
    by (simp add: create_level_bounds_def plev_bounds_vals_eq)
  from output_dimensions_and_types [OF h s1 s2] obtain w' nc vp vb where
    "write_level_bounds plev_vals ?pbv fresh_world = (None, w')"
    "files w' ''level_bounds.nc'' = Some nc"
    "nc_dims nc = [(''plev'', 8), (''bnds'', 2)]"
    "map_of (nc_vars nc) ''plev'' = Some vp" "var_dtype vp = F8"
    "map_of (nc_vars nc) ''plev_bounds'' = Some vb" "var_dtype vb = F8"
    by auto
  then show ?thesis
    using h c by (simp add: plev_vals_eq plev_bounds_vals_eq)
qed

text \<open>
  A world in which the create that fails has removed the old file: the generator fails,
  and the file that was at the path is gone. So a path that cannot be written does not
  by itself mean that a file at the path is left untouched.
\<close>

theorem failed_create_loses_file:
  "\<not> writable clobbering_world ''level_bounds.nc'' \<and>
   files clobbering_world ''level_bounds.nc'' = Some scenario_nc \<and>
   fst (create_level_bounds clobbering_world) = Some PermissionError \<and>
   files (snd (create_level_bounds clobbering_world)) ''level_bounds.nc'' = None"
  by (simp add: create_level_bounds_def write_level_bounds_def Dataset_w_def
      plev_bounds_vals_eq clobbering_world_def)

text \<open>
  Claim C6, as the code has it. If the output path cannot be written, the generator
  fails with the error of the open and does nothing after it: it creates no file, and
  the world is as the failed create left it. A file that was at the path is untouched
  where the failed create touches nothing, and is gone where the failed create has
  removed it; the script does not restore it.
\<close>

theorem failed_open_ends_script:
  assumes "\<not> writable w ''level_bounds.nc''"
  shows "create_level_bounds w =
    (Some PermissionError,
     if failed_create_removes w ''level_bounds.nc''
     then w\<lparr>files := (files w)(''level_bounds.nc'' := None)\<rparr>
     else w)"
  using assms
  by (simp add: create_level_bounds_def write_level_bounds_def Dataset_w_def
      plev_bounds_vals_eq)

theorem failed_open_ends_script_witness:
  "\<not> writable readonly_world ''level_bounds.nc'' \<and>
   \<not> failed_create_removes readonly_world ''level_bounds.nc'' \<and>
   create_level_bounds readonly_world = (Some PermissionError, readonly_world) \<and>
   files readonly_world ''level_bounds.nc'' = Some scenario_nc"
  using failed_open_ends_script [of readonly_world]
  by (simp add: readonly_world_def)

section \<open>The validator\<close>

lemma getitem_1d:
  assumes "nd_shape a = [n]" and "i < n" and "length (nd_data a) = n"
  shows "getitem a i = Inr \<lparr>nd_dtype = nd_dtype a, nd_shape = [], nd_data = [nd_data a ! i]\<rparr>"
proof -
  have "take 1 (drop i (nd_data a)) = [nd_data a ! i]"
    using assms by (simp add: take_Suc_conv_app_nth)
  then show ?thesis
    using assms by (simp add: getitem_def)
qed

lemma getitem_pair:
  assumes "nd_shape a = [m, 2]" and "i < m" and "length (nd_data a) = m * 2"
  shows "getitem a i = Inr \<lparr>nd_dtype = nd_dtype a, nd_shape = [2],
            nd_data = [nd_data a ! (2 * i), nd_data a ! (2 * i + 1)]\<rparr>"
proof -
  have l: "2 * i + 1 < length (nd_data a)"
    using assms by simp
  have "take 2 (drop (i * 2) (nd_data a)) = [nd_data a ! (2 * i), nd_data a ! (2 * i + 1)]"
    using l by (simp add: numeral_2_eq_2 take_Suc_conv_app_nth mult.commute)
  then show ?thesis
    using assms by (simp add: getitem_def)
qed

lemma getitem_rows:
  assumes "nd_shape a = m # sh"
  shows "getitem a i =
    (if i < m
     then Inr \<lparr>nd_dtype = nd_dtype a, nd_shape = sh,
               nd_data = take (prod_list sh) (drop (i * prod_list sh) (nd_data a))\<rparr>
     else Inl IndexError)"
  using assms by (simp add: getitem_def)

lemma np_mean_pair:
  "np_mean \<lparr>nd_dtype = t, nd_shape = sh, nd_data = [b0, b1]\<rparr> = spec_midpoint t b0 b1"
  by (simp add: np_mean_def np_sum_def spec_midpoint_def numeral_2_eq_2)

lemma check_row_ok:
  assumes "nd_shape plev = [n]" and "length (nd_data plev) = n"
    and "nd_shape pb = m # sh" and "i < n" and "i < m"
  shows "\<exists>mid diff. check_row plev pb i = Inr (nd_data plev ! i, mid, diff)"
  using assms by (simp add: check_row_def getitem_1d getitem_rows Let_def)

lemma check_row_fail:
  assumes "nd_shape pb = m # sh" and "m \<le> i"
  shows "check_row plev pb i = Inl IndexError"
  using assms by (simp add: check_row_def getitem_rows)

lemma check_loop_append:
  assumes "\<forall>i\<in>set is. \<exists>r. check_row plev pb i = Inr r"
  shows "check_loop plev pb (is @ js) w =
    check_loop plev pb js (w\<lparr>stdout := stdout w @ map (row_line plev pb) is\<rparr>)"
  using assms
proof (induction "is" arbitrary: w)
  case Nil
  then show ?case by simp
next
  case (Cons i "is")
  then obtain r where r: "check_row plev pb i = Inr r"
    by auto
  have "check_loop plev pb ((i # is) @ js) w =
      check_loop plev pb (is @ js) (print (format_row r) w)"
    by (simp add: r)
  also have "\<dots> = check_loop plev pb js
      ((print (format_row r) w)\<lparr>stdout := stdout (print (format_row r) w) @ map (row_line plev pb) is\<rparr>)"
    using Cons by simp
  finally have "check_loop plev pb ((i # is) @ js) w = check_loop plev pb js
      ((print (format_row r) w)\<lparr>stdout := stdout (print (format_row r) w) @ map (row_line plev pb) is\<rparr>)" .
  moreover have "row_line plev pb i = format_row r"
    by (simp add: row_line_def r)
  ultimately show ?case
    by (simp add: print_def)
qed

lemma check_loop_rows:
  assumes "nd_shape plev = [n]" and "length (nd_data plev) = n" and "nd_shape pb = m # sh"
  shows "check_loop plev pb [0..<n] w =
    (if m < n then Some IndexError else None,
     w\<lparr>stdout := stdout w @ map (row_line plev pb) [0..<min n m]\<rparr>)"
proof (cases "m < n")
  case True
  have ok: "\<forall>i\<in>set [0..<m]. \<exists>r. check_row plev pb i = Inr r"
  proof
    fix i
    assume "i \<in> set [0..<m]"
    then have "i < n" and "i < m"
      using True by simp_all
    from check_row_ok [OF assms this] show "\<exists>r. check_row plev pb i = Inr r"
      by blast
  qed
  from True obtain k where k: "n = m + Suc k"
    using less_imp_Suc_add by auto
  have "[0..<m + Suc k] = [0..<m] @ [m..<m + Suc k]"
    by (rule upt_add_eq_append) simp
  moreover have "[m..<m + Suc k] = m # [Suc m..<m + Suc k]"
    by (rule upt_conv_Cons) simp
  ultimately have "[0..<n] = [0..<m] @ m # [Suc m..<n]"
    using k by simp
  then have "check_loop plev pb [0..<n] w =
      check_loop plev pb (m # [Suc m..<n]) (w\<lparr>stdout := stdout w @ map (row_line plev pb) [0..<m]\<rparr>)"
    using check_loop_append [OF ok] by simp
  then show ?thesis
    using True check_row_fail [OF assms(3), of m plev] by (simp add: min_def)
next
  case False
  have ok: "\<forall>i\<in>set [0..<n]. \<exists>r. check_row plev pb i = Inr r"
  proof
    fix i
    assume "i \<in> set [0..<n]"
    then have "i < n" and "i < m"
      using False by simp_all
    from check_row_ok [OF assms this] show "\<exists>r. check_row plev pb i = Inr r"
      by blast
  qed
  show ?thesis
    using check_loop_append [OF ok, of "[]" w] False by (simp add: min_def)
qed

lemma levels_check_run:
  assumes "files w ''level_bounds.nc'' = Some ds"
    and "variables_get ds ''plev'' = Inr plev"
    and "variables_get ds ''plev_bounds'' = Inr pb"
    and "nd_shape plev = [n]" and "length (nd_data plev) = n" and "nd_shape pb = m # sh"
  shows "levels_check w =
    (if m < n then Some IndexError else None,
     w\<lparr>open_files := ''level_bounds.nc'' # open_files w,
       stdout := stdout w @ map (row_line plev pb) [0..<min n m]\<rparr>)"
  using assms
  by (simp add: levels_check_def Dataset_r_def len_def check_loop_rows)

lemma digits_numeral:
  "digits (numeral k) =
     (if (numeral k :: nat) < 10 then [''0123456789'' ! numeral k]
      else digits (numeral k div 10) @ [''0123456789'' ! (numeral k mod 10)])"
  by (rule digits.simps)

lemma digits_0: "digits 0 = ''0''"
  by (simp add: digits.simps)

lemma digits_1: "digits (Suc 0) = ''1''"
  by (simp add: digits.simps)

lemma replicate_pred_numeral: "replicate (numeral k) x = x # replicate (pred_numeral k) x"
  by (simp add: numeral_eq_Suc)

lemmas fmt_eval = digits_numeral digits_0 digits_1 replicate_pred_numeral rjust_def
  format_row_def format_fixed_def round_half_even_def Let_def

lemma scenario_arrays:
  "variables_get scenario_nc ''plev'' =
     Inr \<lparr>nd_dtype = F8, nd_shape = [2], nd_data = [Num 100000, Num 92500]\<rparr>"
  "variables_get scenario_nc ''plev_bounds'' =
     Inr \<lparr>nd_dtype = F8, nd_shape = [2, 2],
           nd_data = [Num 101325, Num 96250, Num 96250, Num 88750]\<rparr>"
  by (simp_all add: variables_get_def scenario_nc_def var_shape_def dim_size_def)

lemma mismatch_arrays:
  "variables_get mismatch_nc ''plev'' =
     Inr \<lparr>nd_dtype = F8, nd_shape = [2], nd_data = [Num 100000, Num 92500]\<rparr>"
  "variables_get mismatch_nc ''plev_bounds'' =
     Inr \<lparr>nd_dtype = F8, nd_shape = [1, 2], nd_data = [Num 101325, Num 96250]\<rparr>"
  by (simp_all add: variables_get_def mismatch_nc_def var_shape_def dim_size_def)

lemma no_bounds_arrays:
  "variables_get no_bounds_nc ''plev'' =
     Inr \<lparr>nd_dtype = F8, nd_shape = [2], nd_data = [Num 100000, Num 92500]\<rparr>"
  "variables_get no_bounds_nc ''plev_bounds'' = Inl (KeyError ''plev_bounds'')"
  by (simp_all add: variables_get_def no_bounds_nc_def var_shape_def dim_size_def)

lemma mid0: "spec_midpoint F8 (Num 101325) (Num 96250) = Num (197575 / 2)"
  by (simp add: spec_midpoint_def fl_eval)

lemma diff0: "fabs (fsub F8 (Num (197575 / 2)) (Num 100000)) = Num (2425 / 2)"
  by (simp add: fsub_Num fl_eval)

lemma mid1: "spec_midpoint F8 (Num 96250) (Num 88750) = Num 92500"
  by (simp add: spec_midpoint_def fl_eval)

lemma diff1: "fabs (fsub F8 (Num 92500) (Num 92500)) = Num 0"
  by (simp add: fsub_Num fl_eval)

lemma line0:
  "format_row (Num 100000, Num (197575 / 2), Num (2425 / 2)) =
     ''plev: 100000.0 | midpoint:  98787.5 | diff: 1212.5''"
  by (simp add: fmt_eval)

lemma line1:
  "format_row (Num 92500, Num 92500, Num 0) =
     ''plev:  92500.0 | midpoint:  92500.0 | diff:    0.0''"
  by (simp add: fmt_eval)

lemma check_row_pair:
  assumes "nd_shape plev = [n]" and "length (nd_data plev) = n"
    and "nd_shape pb = [m, 2]" and "length (nd_data pb) = m * 2"
    and "i < n" and "i < m"
  shows "check_row plev pb i =
    Inr (nd_data plev ! i,
         spec_midpoint (nd_dtype pb) (nd_data pb ! (2 * i)) (nd_data pb ! (2 * i + 1)),
         fabs (fsub (promote (nd_dtype pb) (nd_dtype plev))
           (spec_midpoint (nd_dtype pb) (nd_data pb ! (2 * i)) (nd_data pb ! (2 * i + 1)))
           (nd_data plev ! i)))"
  using assms
  by (simp add: check_row_def getitem_1d getitem_pair np_mean_pair Let_def)

text \<open>
  Claim C2. For every index \<open>i\<close> of a file of plain arrays with \<open>n\<close> levels and \<open>m\<close>
  bounds pairs, the midpoint that the validator computes, \<open>np.mean\<close> over the
  two-element bounds row, is \<open>(bounds[i][0] + bounds[i][1]) / 2\<close> evaluated in the
  floating-point arithmetic of the bounds, and the reported difference is
  \<open>|midpoint - level[i]|\<close>. For \<open>float64\<close> bounds and levels that are integers (of a sum
  below \<open>2^53\<close>), as in every file that the generator writes, no operation rounds: the
  midpoint is the rational number \<open>(b0 + b1) / 2\<close> and the difference the rational
  number \<open>|(b0 + b1) / 2 - level|\<close>.
\<close>

theorem midpoint_and_difference:
  assumes "nd_shape plev = [n]" and "length (nd_data plev) = n"
    and "nd_shape pb = [m, 2]" and "length (nd_data pb) = m * 2"
    and "i < n" and "i < m"
    and "plain plev" and "plain pb"
  shows "\<exists>lev b0 b1 midpoint diff.
      getitem plev i = Inr \<lparr>nd_dtype = nd_dtype plev, nd_shape = [], nd_data = [lev]\<rparr> \<and>
      getitem pb i = Inr \<lparr>nd_dtype = nd_dtype pb, nd_shape = [2], nd_data = [b0, b1]\<rparr> \<and>
      check_row plev pb i = Inr (lev, midpoint, diff) \<and>
      midpoint = spec_midpoint (nd_dtype pb) b0 b1 \<and>
      diff = fabs (fsub (promote (nd_dtype pb) (nd_dtype plev)) midpoint lev) \<and>
      (\<forall>x y l. nd_dtype pb = F8 \<and> b0 = Num (of_int x) \<and> b1 = Num (of_int y) \<and>
          lev = Num (of_int l) \<and> \<bar>x + y\<bar> < 2 ^ 53 \<and> \<bar>x + y - 2 * l\<bar> < 2 ^ 53 \<longrightarrow>
          midpoint = Num ((of_int x + of_int y) / 2) \<and>
          diff = Num \<bar>(of_int x + of_int y) / 2 - of_int l\<bar>)"
  using assms
  by (simp add: check_row_pair getitem_1d getitem_pair spec_midpoint_int_exact diff_int_exact)

theorem midpoint_and_difference_witness:
  "plain \<lparr>nd_dtype = F8, nd_shape = [2], nd_data = [Num 100000, Num 92500]\<rparr> \<and>
   plain \<lparr>nd_dtype = F8, nd_shape = [2, 2],
          nd_data = [Num 101325, Num 96250, Num 96250, Num 88750]\<rparr> \<and>
   check_row \<lparr>nd_dtype = F8, nd_shape = [2], nd_data = [Num 100000, Num 92500]\<rparr>
     \<lparr>nd_dtype = F8, nd_shape = [2, 2],
       nd_data = [Num 101325, Num 96250, Num 96250, Num 88750]\<rparr> 0 =
   Inr (Num 100000, Num ((101325 + 96250) / 2), Num \<bar>(101325 + 96250) / 2 - 100000\<bar>)"
proof -
  let ?plev = "\<lparr>nd_dtype = F8, nd_shape = [2], nd_data = [Num 100000, Num 92500]\<rparr>"
  let ?pb = "\<lparr>nd_dtype = F8, nd_shape = [2, 2],
       nd_data = [Num 101325, Num 96250, Num 96250, Num 88750]\<rparr>"
  have p: "plain ?plev" "plain ?pb"
    by (simp_all add: plain_def)
  have "nd_shape ?plev = [2]" and "length (nd_data ?plev) = 2"
    and "nd_shape ?pb = [2, 2]" and "length (nd_data ?pb) = 2 * 2" and "(0::nat) < 2"
    by simp_all
  from midpoint_and_difference [OF this(1-5) this(5) p]
  obtain lev b0 b1 midpoint diff where
    g1: "getitem ?plev 0 = Inr \<lparr>nd_dtype = nd_dtype ?plev, nd_shape = [], nd_data = [lev]\<rparr>"
    and g2: "getitem ?pb 0 = Inr \<lparr>nd_dtype = nd_dtype ?pb, nd_shape = [2], nd_data = [b0, b1]\<rparr>"
    and c: "check_row ?plev ?pb 0 = Inr (lev, midpoint, diff)"
    and ex: "\<forall>x y l. nd_dtype ?pb = F8 \<and> b0 = Num (of_int x) \<and> b1 = Num (of_int y) \<and>
          lev = Num (of_int l) \<and> \<bar>x + y\<bar> < 2 ^ 53 \<and> \<bar>x + y - 2 * l\<bar> < 2 ^ 53 \<longrightarrow>
          midpoint = Num ((of_int x + of_int y) / 2) \<and>
          diff = Num \<bar>(of_int x + of_int y) / 2 - of_int l\<bar>"
    by blast
  from g1 g2 have v: "lev = Num (of_int 100000)" "b0 = Num (of_int 101325)"
      "b1 = Num (of_int 96250)"
    by (simp_all add: getitem_def)
  have "nd_dtype ?pb = F8 \<and> b0 = Num (of_int 101325) \<and> b1 = Num (of_int 96250) \<and>
      lev = Num (of_int 100000) \<and> \<bar>101325 + 96250 :: int\<bar> < 2 ^ 53 \<and>
      \<bar>101325 + 96250 - 2 * 100000 :: int\<bar> < 2 ^ 53"
    using v by simp
  with ex have "midpoint = Num ((of_int 101325 + of_int 96250) / 2) \<and>
      diff = Num \<bar>(of_int 101325 + of_int 96250) / 2 - of_int 100000\<bar>"
    by blast
  with c v p show ?thesis
    by simp
qed

lemma first_line_at:
  assumes "0 < k"
  shows "(xs @ map f [0..<k]) ! length xs = f 0"
  using assms by (simp add: nth_append)

text \<open>
  Claim C3. For a file whose level sequence starts with 100000 and whose bounds row 0
  is \<open>[101325, 96250]\<close>, the first line that the validator prints reports the level
  100000.0, the midpoint 98787.5 and the difference 1212.5, each with one decimal place
  in a field of fixed width.
\<close>

theorem scenario_first_line:
  assumes "files w ''level_bounds.nc'' = Some ds"
    and "variables_get ds ''plev'' = Inr plev"
    and "variables_get ds ''plev_bounds'' = Inr pb"
    and "nd_dtype plev = F8" and "nd_shape plev = [n]" and "length (nd_data plev) = n"
    and "nd_dtype pb = F8" and "nd_shape pb = [m, 2]" and "length (nd_data pb) = m * 2"
    and "0 < n" and "0 < m"
    and "nd_data plev ! 0 = Num 100000"
    and "nd_data pb ! 0 = Num 101325" and "nd_data pb ! 1 = Num 96250"
  shows "length (stdout w) < length (stdout (snd (levels_check w))) \<and>
    stdout (snd (levels_check w)) ! length (stdout w) =
      ''plev: 100000.0 | midpoint:  98787.5 | diff: 1212.5''"
proof -
  have run: "stdout (snd (levels_check w)) =
      stdout w @ map (row_line plev pb) [0..<min n m]"
    using assms by (simp add: levels_check_run)
  have "check_row plev pb 0 = Inr (Num 100000, Num (197575 / 2), Num (2425 / 2))"
    using assms check_row_pair [of plev n pb m 0] by (simp add: mid0 diff0)
  then have "row_line plev pb 0 = ''plev: 100000.0 | midpoint:  98787.5 | diff: 1212.5''"
    by (simp add: row_line_def line0)
  moreover have "0 < min n m"
    using assms by simp
  ultimately show ?thesis
    using run by (simp add: first_line_at)
qed

theorem scenario_first_line_witness:
  "files (world_with scenario_nc) ''level_bounds.nc'' = Some scenario_nc \<and>
   stdout (world_with scenario_nc) = [] \<and>
   stdout (snd (levels_check (world_with scenario_nc))) ! 0 =
     ''plev: 100000.0 | midpoint:  98787.5 | diff: 1212.5''"
  using scenario_first_line
    [of "world_with scenario_nc" scenario_nc
        "\<lparr>nd_dtype = F8, nd_shape = [2], nd_data = [Num 100000, Num 92500]\<rparr>"
        "\<lparr>nd_dtype = F8, nd_shape = [2, 2],
           nd_data = [Num 101325, Num 96250, Num 96250, Num 88750]\<rparr>" 2 2]
  by (simp add: world_with_def scenario_arrays)

lemma upt_0_2: "[0..<2] = [0, 1]"
  by code_simp

lemma upt_0_1: "[0..<1] = [0]"
  by code_simp

lemma scenario_rows:
  "row_line \<lparr>nd_dtype = F8, nd_shape = [2], nd_data = [Num 100000, Num 92500]\<rparr>
     \<lparr>nd_dtype = F8, nd_shape = [2, 2],
       nd_data = [Num 101325, Num 96250, Num 96250, Num 88750]\<rparr> 0 =
   ''plev: 100000.0 | midpoint:  98787.5 | diff: 1212.5''"
  "row_line \<lparr>nd_dtype = F8, nd_shape = [2], nd_data = [Num 100000, Num 92500]\<rparr>
     \<lparr>nd_dtype = F8, nd_shape = [2, 2],
       nd_data = [Num 101325, Num 96250, Num 96250, Num 88750]\<rparr> (Suc 0) =
   ''plev:  92500.0 | midpoint:  92500.0 | diff:    0.0''"
  by (simp_all add: row_line_def check_row_pair [where n = 2 and m = 2]
      mid0 diff0 mid1 diff1 line0 line1)

lemma mismatch_row:
  "row_line \<lparr>nd_dtype = F8, nd_shape = [2], nd_data = [Num 100000, Num 92500]\<rparr>
     \<lparr>nd_dtype = F8, nd_shape = [Suc 0, 2], nd_data = [Num 101325, Num 96250]\<rparr> 0 =
   ''plev: 100000.0 | midpoint:  98787.5 | diff: 1212.5''"
  by (simp add: row_line_def check_row_pair [where n = 2 and m = "Suc 0"] mid0 diff0 line0)

lemma levels_check_no_bounds:
  assumes "files w ''level_bounds.nc'' = Some ds"
    and "variables_get ds ''plev_bounds'' = Inl e"
  shows "(\<exists>e'. fst (levels_check w) = Some e') \<and> stdout (snd (levels_check w)) = stdout w"
  using assms
  by (simp add: levels_check_def Dataset_r_def split: sum.splits)

text \<open>
  A file whose \<open>plev_bounds\<close> has one row for two levels: the validator prints the
  line of the first level and fails at the second. So a structurally mismatched file
  does not make the validator fail before it prints anything.
\<close>

theorem mismatch_prints_partial:
  "fst (levels_check (world_with mismatch_nc)) = Some IndexError \<and>
   stdout (snd (levels_check (world_with mismatch_nc))) =
     [''plev: 100000.0 | midpoint:  98787.5 | diff: 1212.5'']"
  using levels_check_run
    [of "world_with mismatch_nc" mismatch_nc
        "\<lparr>nd_dtype = F8, nd_shape = [2], nd_data = [Num 100000, Num 92500]\<rparr>"
        "\<lparr>nd_dtype = F8, nd_shape = [1, 2], nd_data = [Num 101325, Num 96250]\<rparr>" 2 1 "[2]"]
  by (simp add: world_with_def mismatch_arrays upt_0_1 mismatch_row)

text \<open>
  Claim C5, as the code has it. When the variable \<open>plev_bounds\<close> is absent from the
  file, the validator fails before it prints any line. When \<open>plev_bounds\<close> has fewer
  rows (\<open>m\<close>) than there are levels (\<open>n\<close>), in a file of plain arrays with bounds rows
  of two, the validator prints the lines of the first \<open>m\<close> levels and then fails with an
  index error: the variables are read in full before the loop, but their shapes are
  compared nowhere.
\<close>

theorem structural_errors:
  assumes "files w ''level_bounds.nc'' = Some ds"
  shows "(\<forall>e. variables_get ds ''plev_bounds'' = Inl e \<longrightarrow>
            (\<exists>e'. fst (levels_check w) = Some e') \<and>
            stdout (snd (levels_check w)) = stdout w) \<and>
         (\<forall>plev pb n m.
            variables_get ds ''plev'' = Inr plev \<and>
            variables_get ds ''plev_bounds'' = Inr pb \<and>
            nd_shape plev = [n] \<and> length (nd_data plev) = n \<and>
            nd_shape pb = [m, 2] \<and> length (nd_data pb) = m * 2 \<and>
            plain plev \<and> plain pb \<and> m < n \<longrightarrow>
            fst (levels_check w) = Some IndexError \<and>
            stdout (snd (levels_check w)) = stdout w @ map (row_line plev pb) [0..<m])"
  using assms
  by (auto simp add: levels_check_no_bounds levels_check_run)

theorem structural_errors_witness:
  "(\<exists>e'. fst (levels_check (world_with no_bounds_nc)) = Some e') \<and>
   stdout (snd (levels_check (world_with no_bounds_nc))) = [] \<and>
   fst (levels_check (world_with mismatch_nc)) = Some IndexError \<and>
   stdout (snd (levels_check (world_with mismatch_nc))) =
     [''plev: 100000.0 | midpoint:  98787.5 | diff: 1212.5'']"
proof -
  have f1: "files (world_with no_bounds_nc) ''level_bounds.nc'' = Some no_bounds_nc"
    and f2: "files (world_with mismatch_nc) ''level_bounds.nc'' = Some mismatch_nc"
    by (simp_all add: world_with_def)
  let ?plev = "\<lparr>nd_dtype = F8, nd_shape = [2], nd_data = [Num 100000, Num 92500]\<rparr>"
  let ?pb = "\<lparr>nd_dtype = F8, nd_shape = [1, 2], nd_data = [Num 101325, Num 96250]\<rparr>"
  have a: "(\<exists>e'. fst (levels_check (world_with no_bounds_nc)) = Some e') \<and>
      stdout (snd (levels_check (world_with no_bounds_nc))) = stdout (world_with no_bounds_nc)"
    using structural_errors [OF f1] no_bounds_arrays(2) by blast
  have "variables_get mismatch_nc ''plev'' = Inr ?plev \<and>
      variables_get mismatch_nc ''plev_bounds'' = Inr ?pb \<and>
      nd_shape ?plev = [2] \<and> length (nd_data ?plev) = 2 \<and>
      nd_shape ?pb = [1, 2] \<and> length (nd_data ?pb) = 1 * 2 \<and>
      plain ?plev \<and> plain ?pb \<and> (1::nat) < 2"
    by (simp add: mismatch_arrays plain_def)
  with structural_errors [OF f2]
  have b: "fst (levels_check (world_with mismatch_nc)) = Some IndexError \<and>
      stdout (snd (levels_check (world_with mismatch_nc))) =
        stdout (world_with mismatch_nc) @ map (row_line ?plev ?pb) [0..<1]"
    by blast
  from a b show ?thesis
    by (simp add: world_with_def upt_0_1 mismatch_row)
qed

text \<open>
  Claim C7. On a well-formed file (\<open>n\<close> levels, at least as many bounds rows of two,
  all numbers plain) the validator ends without error, prints exactly one line per
  level, the line of level \<open>i\<close> at position \<open>i\<close> of its output, and leaves every file as
  it was.
\<close>

theorem one_line_per_level:
  assumes "files w ''level_bounds.nc'' = Some ds"
    and "variables_get ds ''plev'' = Inr plev"
    and "variables_get ds ''plev_bounds'' = Inr pb"
    and "nd_shape plev = [n]" and "length (nd_data plev) = n"
    and "nd_shape pb = [m, 2]" and "length (nd_data pb) = m * 2"
    and "plain plev" and "plain pb" and "n \<le> m"
  shows "fst (levels_check w) = None \<and>
    stdout (snd (levels_check w)) = stdout w @ map (row_line plev pb) [0..<n] \<and>
    length (stdout (snd (levels_check w))) = length (stdout w) + n \<and>
    files (snd (levels_check w)) = files w \<and>
    list_all (\<lambda>i. \<exists>midpoint diff.
        stdout (snd (levels_check w)) ! (length (stdout w) + i) =
          format_row (nd_data plev ! i, midpoint, diff)) [0..<n]"
proof -
  have run: "levels_check w =
      (None, w\<lparr>open_files := ''level_bounds.nc'' # open_files w,
               stdout := stdout w @ map (row_line plev pb) [0..<n]\<rparr>)"
    using assms by (simp add: levels_check_run min_def)
  have "\<exists>midpoint diff. row_line plev pb i = format_row (nd_data plev ! i, midpoint, diff)"
    if "i < n" for i
  proof -
    from check_row_ok [OF assms(4) assms(5) assms(6) that] that assms(10)
    obtain midpoint diff where "check_row plev pb i = Inr (nd_data plev ! i, midpoint, diff)"
      by auto
    then show ?thesis
      by (auto simp add: row_line_def)
  qed
  then show ?thesis
    by (simp add: run list_all_iff)
qed

theorem one_line_per_level_witness:
  "plain \<lparr>nd_dtype = F8, nd_shape = [2], nd_data = [Num 100000, Num 92500]\<rparr> \<and>
   plain \<lparr>nd_dtype = F8, nd_shape = [2, 2],
          nd_data = [Num 101325, Num 96250, Num 96250, Num 88750]\<rparr> \<and>
   fst (levels_check (world_with scenario_nc)) = None \<and>
   stdout (snd (levels_check (world_with scenario_nc))) =
     [''plev: 100000.0 | midpoint:  98787.5 | diff: 1212.5'',
      ''plev:  92500.0 | midpoint:  92500.0 | diff:    0.0''] \<and>
   files (snd (levels_check (world_with scenario_nc))) = files (world_with scenario_nc)"
  using one_line_per_level
    [of "world_with scenario_nc" scenario_nc
        "\<lparr>nd_dtype = F8, nd_shape = [2], nd_data = [Num 100000, Num 92500]\<rparr>"
        "\<lparr>nd_dtype = F8, nd_shape = [2, 2],
           nd_data = [Num 101325, Num 96250, Num 96250, Num 88750]\<rparr>" 2 2]
  by (simp add: world_with_def scenario_arrays upt_0_2 scenario_rows plain_def)

text \<open>
  File handles. The generator closes its file on every path, its \<open>with\<close> block having
  raised or not; the validator, once it has opened the file, ends with the file open.
\<close>

lemma write_level_bounds_closes:
  "open_files (snd (write_level_bounds pv pbv w)) = open_files w"
  by (simp add: write_level_bounds_def Dataset_w_def close_file_def split: prod.splits)

lemma create_level_bounds_closes:
  "open_files (snd (create_level_bounds w)) = open_files w"
  by (simp add: create_level_bounds_def write_level_bounds_closes split: sum.splits)

lemma check_loop_open_files:
  "open_files (snd (check_loop plev pb is w)) = open_files w"
  by (induction "is" arbitrary: w) (simp_all add: print_def split: sum.splits)

lemma levels_check_keeps_open:
  assumes "files w ''level_bounds.nc'' = Some ds"
  shows "open_files (snd (levels_check w)) = ''level_bounds.nc'' # open_files w"
  using assms
  by (simp add: levels_check_def Dataset_r_def check_loop_open_files split: sum.splits)

text \<open>
  Claim C8. Every open of the file should be matched by a close before the script ends.
  The generator does so. The validator run on the file that the generator wrote ends
  without error and with its handle still open.
\<close>

theorem validator_leaves_file_open:
  "fst (create_level_bounds fresh_world) = None \<and>
   open_files (snd (create_level_bounds fresh_world)) = [] \<and>
   fst (levels_check (snd (create_level_bounds fresh_world))) = None \<and>
   open_files (snd (levels_check (snd (create_level_bounds fresh_world)))) =
     [''level_bounds.nc'']"
proof -
  have w: "writable fresh_world ''level_bounds.nc''"
    by (simp add: fresh_world_def)
  let ?w = "snd (create_level_bounds fresh_world)"
  have f: "files ?w ''level_bounds.nc'' = Some generated_nc"
    by (simp add: create_level_bounds_result [OF w])
  have o: "open_files ?w = []"
    by (simp add: create_level_bounds_closes fresh_world_def)
  have "fst (levels_check ?w) = None"
    using levels_check_run [OF f generated_arrays(1) generated_arrays(2), of 8 8 "[2]"]
    by simp
  then show ?thesis
    using levels_check_keeps_open [OF f] o
    by (simp add: create_level_bounds_result [OF w])
qed

end
